theory Spec2Isabelle
  imports Complex_Main
begin

section \<open>Ray signals: \<open>python/ray/experimental/signal.py\<close>\<close>

text \<open>
  The module publishes signals to Redis streams (\<open>send\<close>) and reads them back with a
  per-worker cursor for every stream (\<open>receive\<close>, \<open>forget\<close>, \<open>reset\<close>).
  Python \<open>bytes\<close> and ASCII \<open>str\<close> values are both modelled as \<open>string\<close>
  (a list of 8-bit characters).
\<close>

subsection \<open>Data\<close>

type_synonym bytes = string

text \<open>
  The exceptions a call can end with, under the names the specification gives them:
  \<open>InvalidTimeout\<close> is the \<open>ValueError\<close> raised at line 115,
  \<open>UnsupportedSourceKind\<close> the failure of \<open>compute_task_id\<close> on a value that is
  no object id, \<open>TransportError\<close> any exception of the Redis client,
  \<open>AsciiError\<close> a \<open>UnicodeDecodeError\<close> of \<open>decode("ascii")\<close>,
  \<open>HexError\<close> a \<open>binascii.Error\<close> of \<open>hex_to_binary\<close>, \<open>DecodeError\<close>
  a failure of \<open>cloudpickle.loads\<close>, and \<open>EncodeError\<close> a failure of
  \<open>cloudpickle.dumps\<close>.
\<close>

datatype error =
    InvalidTimeout
  | UnsupportedSourceKind
  | TransportError
  | AsciiError
  | HexError
  | DecodeError
  | EncodeError

text \<open>
  The classes \<open>Signal\<close>, \<open>ErrorSignal\<close> and \<open>ActorDiedSignal\<close> (lines 17-33);
  \<open>UserSignal\<close> stands for an instance of a subclass a user defines.
\<close>

datatype signal =
    Signal
  | ErrorSignal string
  | ActorDiedSignal
  | UserSignal string

text \<open>
  A source is an actor handle, a task id, an object id, or any other Python value.
  Of an actor handle the module reads \<open>_actor_id\<close> only; \<open>creation_task_id\<close>
  records which task created the actor, so that the two identities can be told apart.
  An object id is given by the task that returns the object and the index of the
  return value.
\<close>

record actor_handle =
  handle_actor_id :: bytes
  creation_task_id :: bytes

datatype source =
    ActorHandle actor_handle
  | TaskID bytes
  | ObjectID bytes nat
  | OtherValue string

text \<open>
  \<open>ray.worker.global_worker\<close>: the actor id is \<open>None\<close> when \<open>actor_id.is_nil()\<close>;
  \<open>signal_counters\<close> is \<open>None\<close> as long as the attribute does not exist
  (\<open>hasattr\<close> at lines 117 and 197), and otherwise the \<open>defaultdict\<close> from the
  binary stream id to the last Redis entry id seen, with default \<open>b"0"\<close>.
\<close>

record worker =
  actor_id :: "bytes option"
  current_task_id :: bytes
  signal_counters :: "(bytes \<rightharpoonup> bytes) option"

text \<open>
  \<open>cloudpickle.dumps\<close> and \<open>cloudpickle.loads\<close>: the signal codec, a parameter.
  Either function can raise, which is the value \<open>None\<close>.
\<close>

record codec =
  dumps :: "signal \<Rightarrow> bytes option"
  loads :: "bytes \<Rightarrow> signal option"

text \<open>
  The two commands the module sends to Redis, by their parts:
  \<open>"XADD " + source_key + " * signal " + encoded_signal\<close> (line 75) and
  \<open>"XREAD BLOCK " + str(timeout_ms) + " STREAMS " + keys + " " + ids\<close> (lines 134-143).
  The client answers with the reply, or with \<open>None\<close> when it raises (the store
  cannot be reached, or refuses the command); a reply without data is the empty list.
  An entry \<open>r\<close> of a reply is the pair of \<open>r[0]\<close>, the Redis entry id, and \<open>r[1][1]\<close>,
  the value of the field \<open>signal\<close>; an answer is the pair of \<open>answer[0]\<close>, the
  stream key, and \<open>answer[1]\<close>, the entries.
\<close>

datatype command =
    XADD string string
  | XREAD int "string list" "string list"

type_synonym entry = "bytes \<times> bytes"

type_synonym answer = "bytes \<times> entry list"

type_synonym redis = "command \<Rightarrow> answer list option"

definition ACTOR_DIED_STR :: string where
  "ACTOR_DIED_STR = ''ACTOR_DIED_SIGNAL''"

subsection \<open>Helpers of \<open>ray.utils\<close> and \<open>ray._raylet\<close>\<close>

text \<open>
  \<open>ray.utils\<close> is not among the source files; its helpers are modelled by the
  library functions they wrap. \<open>binary_to_hex\<close> is
  \<open>binascii.hexlify\<close> (two lower-case digits for every byte), \<open>hex_to_binary\<close> is
  \<open>binascii.unhexlify\<close> (digits of either case; it raises on an odd length and on
  any other character), and \<open>decode\<close> is \<open>bytes.decode("ascii")\<close>. The method
  \<open>hex()\<close> of an id is \<open>binary_to_hex\<close> of its bytes.
\<close>

definition hex_digit :: "nat \<Rightarrow> char" where
  "hex_digit n = ''0123456789abcdef'' ! (n mod 16)"

definition hex_byte :: "char \<Rightarrow> string" where
  "hex_byte c = [hex_digit (of_char c div 16), hex_digit (of_char c mod 16)]"

definition binary_to_hex :: "bytes \<Rightarrow> string" where
  "binary_to_hex bs = concat (map hex_byte bs)"

definition hex_val :: "char \<Rightarrow> nat option" where
  "hex_val c =
     (let n = (of_char c :: nat) in
      if 48 \<le> n \<and> n \<le> 57 then Some (n - 48)
      else if 97 \<le> n \<and> n \<le> 102 then Some (n - 87)
      else if 65 \<le> n \<and> n \<le> 70 then Some (n - 55)
      else None)"

fun hex_to_binary :: "string \<Rightarrow> bytes option" where
  "hex_to_binary [] = Some []"
| "hex_to_binary [c] = None"
| "hex_to_binary (a # b # cs) =
     (case hex_val a of
        None \<Rightarrow> None
      | Some x \<Rightarrow>
          (case hex_val b of
             None \<Rightarrow> None
           | Some y \<Rightarrow>
               (case hex_to_binary cs of
                  None \<Rightarrow> None
                | Some bs \<Rightarrow> Some (char_of (16 * x + y) # bs))))"

definition is_ascii :: "bytes \<Rightarrow> bool" where
  "is_ascii b = list_all (\<lambda>c. \<not> digit7 c) b"

definition decode :: "bytes \<Rightarrow> error + string" where
  "decode b = (if is_ascii b then Inr b else Inl AsciiError)"

text \<open>
  Modelled from the spec: \<open>ray._raylet.compute_task_id\<close> is not among the source
  files. Section 4.1: a result handle resolves to the identity of the task that
  produces the result, and a handle of no supported kind fails with
  \<open>UnsupportedSourceKind\<close>.
\<close>

fun compute_task_id :: "source \<Rightarrow> error + bytes" where
  "compute_task_id (ObjectID task_id i) = Inr task_id"
| "compute_task_id s = Inl UnsupportedSourceKind"

subsection \<open>\<open>_get_task_id\<close> (lines 36-54)\<close>

fun get_task_id :: "source \<Rightarrow> error + bytes" where
  "get_task_id (ActorHandle h) = Inr (handle_actor_id h)"
| "get_task_id (TaskID t) = Inr t"
| "get_task_id s = compute_task_id s"

subsection \<open>\<open>send\<close> (lines 57-75)\<close>

text \<open>Lines 68-71: the stream key of the caller.\<close>

definition source_key :: "worker \<Rightarrow> string" where
  "source_key w =
     (case actor_id w of
        None \<Rightarrow> binary_to_hex (current_task_id w)
      | Some a \<Rightarrow> binary_to_hex a)"

text \<open>
  \<open>send\<close> returns how the call ends and the commands it gave to the Redis client.
  When \<open>cloudpickle.dumps\<close> raises at line 73, line 74 is not reached and no command
  is given.
\<close>

definition send :: "codec \<Rightarrow> redis \<Rightarrow> worker \<Rightarrow> signal \<Rightarrow> (error + unit) \<times> command list" where
  "send cd rd w sg =
     (let key = source_key w in
      case dumps cd sg of
        None \<Rightarrow> (Inl EncodeError, [])
      | Some pickled \<Rightarrow>
          (let encoded_signal = binary_to_hex pickled;
               query = XADD key encoded_signal
           in (case rd query of None \<Rightarrow> Inl TransportError | Some _ \<Rightarrow> Inr (), [query])))"

subsection \<open>\<open>receive\<close> (lines 78-171)\<close>

text \<open>\<open>int(x)\<close> of a Python number truncates towards zero.\<close>

definition py_int :: "rat \<Rightarrow> int" where
  "py_int x = (if x < 0 then - \<lfloor>- x\<rfloor> else \<lfloor>x\<rfloor>)"

text \<open>
  \<open>task_id_to_sources\<close> is a \<open>defaultdict\<close> of lists whose keys are iterated in
  insertion order (lines 138-143): an association list. \<open>add_source\<close> is
  \<open>task_id_to_sources[k].append(s)\<close>, \<open>lookup_sources\<close> the read at line 154, which
  gives the empty list for a key that is absent.
\<close>

type_synonym source_dict = "(string \<times> source list) list"

fun add_source :: "source_dict \<Rightarrow> string \<Rightarrow> source \<Rightarrow> source_dict" where
  "add_source [] k s = [(k, [s])]"
| "add_source ((k', ss) # d) k s =
     (if k' = k then (k', ss @ [s]) # d else (k', ss) # add_source d k s)"

fun lookup_sources :: "source_dict \<Rightarrow> string \<Rightarrow> source list" where
  "lookup_sources [] k = []"
| "lookup_sources ((k', ss) # d) k = (if k' = k then ss else lookup_sources d k)"

text \<open>Lines 123-125: the loop over the sources; the first failing source ends it.\<close>

fun map_sources :: "source list \<Rightarrow> source_dict \<Rightarrow> error + source_dict" where
  "map_sources [] d = Inr d"
| "map_sources (s # ss) d =
     (case get_task_id s of
        Inl e \<Rightarrow> Inl e
      | Inr t \<Rightarrow> map_sources ss (add_source d (binary_to_hex t) s))"

text \<open>
  Lines 140-143: the cursor of every stream key, in order. Reading a
  \<open>defaultdict\<close> at an absent key stores the default \<open>b"0"\<close> there.
\<close>

type_synonym counters = "bytes \<rightharpoonup> bytes"

fun read_counters :: "string list \<Rightarrow> counters \<Rightarrow> counters \<times> (error + string list)" where
  "read_counters [] sc = (sc, Inr [])"
| "read_counters (task_id # ks) sc =
     (case hex_to_binary task_id of
        None \<Rightarrow> (sc, Inl HexError)
      | Some b \<Rightarrow>
          (let v = (case sc b of None \<Rightarrow> ''0'' | Some c \<Rightarrow> c);
               sc' = sc(b \<mapsto> v)
           in case decode v of
                Inl e \<Rightarrow> (sc', Inl e)
              | Inr c \<Rightarrow>
                  (case read_counters ks sc' of
                     (sc'', Inl e) \<Rightarrow> (sc'', Inl e)
                   | (sc'', Inr cs) \<Rightarrow> (sc'', Inr (c # cs)))))"

text \<open>
  Lines 157-169: the loop over the sources of one stream, for one entry \<open>r\<close>.
  The counters are the worker's dictionary, so what is stored before an exception stays
  stored; the list of results is lost with the exception.
\<close>

type_synonym results = "(source \<times> signal) list"

fun per_source ::
  "codec \<Rightarrow> string \<Rightarrow> entry \<Rightarrow> source list \<Rightarrow> counters \<Rightarrow> results \<Rightarrow> counters \<times> (error + results)" where
  "per_source cd task_id r [] sc res = (sc, Inr res)"
| "per_source cd task_id r (s # ss) sc res =
     (case decode (snd r) of
        Inl e \<Rightarrow> (sc, Inl e)
      | Inr p \<Rightarrow>
          if p = ACTOR_DIED_STR then
            per_source cd task_id r ss sc (res @ [(s, ActorDiedSignal)])
          else
            (case hex_to_binary task_id of
               None \<Rightarrow> (sc, Inl HexError)
             | Some k \<Rightarrow>
                 (let sc' = sc(k \<mapsto> fst r) in
                  case hex_to_binary (snd r) of
                    None \<Rightarrow> (sc', Inl HexError)
                  | Some b \<Rightarrow>
                      (case loads cd b of
                         None \<Rightarrow> (sc', Inl DecodeError)
                       | Some sg \<Rightarrow> per_source cd task_id r ss sc' (res @ [(s, sg)])))))"

text \<open>Line 156: the loop over the entries of one answer.\<close>

fun per_entry ::
  "codec \<Rightarrow> string \<Rightarrow> source list \<Rightarrow> entry list \<Rightarrow> counters \<Rightarrow> results \<Rightarrow> counters \<times> (error + results)" where
  "per_entry cd task_id task_source_list [] sc res = (sc, Inr res)"
| "per_entry cd task_id task_source_list (r # rs) sc res =
     (case per_source cd task_id r task_source_list sc res of
        (sc', Inl e) \<Rightarrow> (sc', Inl e)
      | (sc', Inr res') \<Rightarrow> per_entry cd task_id task_source_list rs sc' res')"

text \<open>Lines 151-154: the loop over the answers.\<close>

fun per_answer ::
  "codec \<Rightarrow> source_dict \<Rightarrow> answer list \<Rightarrow> counters \<Rightarrow> results \<Rightarrow> counters \<times> (error + results)" where
  "per_answer cd d [] sc res = (sc, Inr res)"
| "per_answer cd d (answer # answers) sc res =
     (case decode (fst answer) of
        Inl e \<Rightarrow> (sc, Inl e)
      | Inr task_id \<Rightarrow>
          (case per_entry cd task_id (lookup_sources d task_id) (snd answer) sc res of
             (sc', Inl e) \<Rightarrow> (sc', Inl e)
           | (sc', Inr res') \<Rightarrow> per_answer cd d answers sc' res'))"

text \<open>
  \<open>receive\<close> returns how the call ends (the exception, or the list of pairs), the
  worker as the call leaves it, and the commands given to the Redis client. The
  timeout is \<open>None\<close> or a number; a float stands for the rational it denotes, and
  the product at line 131 is the exact one, where Python rounds it to a float first
  (for a timeout below one millisecond both are 1). The warning logged at line 128 is
  not modelled.
\<close>

definition receive ::
  "codec \<Rightarrow> redis \<Rightarrow> worker \<Rightarrow> source list \<Rightarrow> rat option \<Rightarrow> (error + results) \<times> worker \<times> command list" where
  "receive cd rd w sources timeout =
     (let timeout1 = (case timeout of None \<Rightarrow> 10 ^ 12 | Some t \<Rightarrow> t) in
      if timeout1 < 0 then (Inl InvalidTimeout, w, [])
      else
        (let sc0 = (case signal_counters w of None \<Rightarrow> Map.empty | Some sc \<Rightarrow> sc) in
         (case map_sources sources [] of
            Inl e \<Rightarrow> (Inl e, w\<lparr>signal_counters := Some sc0\<rparr>, [])
          | Inr task_id_to_sources \<Rightarrow>
              (let timeout2 = (if timeout1 < 1 / 1000 then 1 / 1000 else timeout1);
                   timeout_ms = py_int (1000 * timeout2)
               in (case read_counters (map fst task_id_to_sources) sc0 of
                     (sc1, Inl e) \<Rightarrow> (Inl e, w\<lparr>signal_counters := Some sc1\<rparr>, [])
                   | (sc1, Inr ids) \<Rightarrow>
                       (let query = XREAD timeout_ms (map fst task_id_to_sources) ids in
                        (case rd query of
                           None \<Rightarrow> (Inl TransportError, w\<lparr>signal_counters := Some sc1\<rparr>, [query])
                         | Some answers \<Rightarrow>
                             (if answers = [] then
                                (Inr [], w\<lparr>signal_counters := Some sc1\<rparr>, [query])
                              else
                                (case per_answer cd task_id_to_sources answers sc1 [] of
                                   (sc2, res) \<Rightarrow>
                                     (res, w\<lparr>signal_counters := Some sc2\<rparr>, [query]))))))))))"

subsection \<open>\<open>forget\<close> (lines 174-186) and \<open>reset\<close> (lines 189-198)\<close>

definition forget :: "codec \<Rightarrow> redis \<Rightarrow> worker \<Rightarrow> source list \<Rightarrow> (error + unit) \<times> worker \<times> command list" where
  "forget cd rd w sources =
     (case receive cd rd w sources (Some 0) of
        (res, w', cmds) \<Rightarrow> (case res of Inl e \<Rightarrow> Inl e | Inr _ \<Rightarrow> Inr (), w', cmds))"

definition reset :: "worker \<Rightarrow> worker" where
  "reset w =
     (case signal_counters w of
        None \<Rightarrow> w
      | Some _ \<Rightarrow> w\<lparr>signal_counters := Some Map.empty\<rparr>)"

text \<open>
  The three parts of what \<open>receive\<close> and \<open>forget\<close> return: how the call ends, the
  worker afterwards, the commands issued.
\<close>

abbreviation outcome :: "'a \<times> 'b \<times> 'c \<Rightarrow> 'a" where
  "outcome x \<equiv> fst x"

abbreviation worker_after :: "'a \<times> 'b \<times> 'c \<Rightarrow> 'b" where
  "worker_after x \<equiv> fst (snd x)"

abbreviation commands :: "'a \<times> 'b \<times> 'c \<Rightarrow> 'c" where
  "commands x \<equiv> snd (snd x)"

text \<open>The cursor the worker holds for a stream: \<open>b"0"\<close> when none is stored.\<close>

definition cursor :: "worker \<Rightarrow> bytes \<Rightarrow> bytes" where
  "cursor w k =
     (case signal_counters w of
        None \<Rightarrow> ''0''
      | Some sc \<Rightarrow> (case sc k of None \<Rightarrow> ''0'' | Some c \<Rightarrow> c))"

subsection \<open>The stream store\<close>

text \<open>
  Modelled from the spec: the log store behind the Redis client is an external
  service. Sections 4.2 and 6: every stream is an ordered list of entries; a read
  takes a cursor for every stream and returns, for every stream that has entries
  newer than its cursor, the key and those entries in order; the cursor \<open>0\<close> stands
  for the beginning of the stream and an entry id is usable as the next cursor; a
  read that finds nothing returns the empty reply. An append puts one entry at the
  end of a stream; the store chooses the id of the entry, so \<open>publish\<close> takes it as an
  argument.
\<close>

type_synonym store = "(string \<times> entry list) list"

fun stream :: "store \<Rightarrow> string \<Rightarrow> entry list" where
  "stream [] k = []"
| "stream ((k', es) # st) k = (if k' = k then es else stream st k)"

fun entries_after :: "bytes \<Rightarrow> entry list \<Rightarrow> entry list" where
  "entries_after c [] = []"
| "entries_after c (e # es) = (if fst e = c then es else entries_after c es)"

definition newer :: "bytes \<Rightarrow> entry list \<Rightarrow> entry list" where
  "newer c es = (if c = ''0'' then es else entries_after c es)"

fun xread :: "store \<Rightarrow> string list \<Rightarrow> string list \<Rightarrow> answer list" where
  "xread st (k # ks) (c # cs) =
     (case newer c (stream st k) of
        [] \<Rightarrow> xread st ks cs
      | e # es \<Rightarrow> (k, e # es) # xread st ks cs)"
| "xread st ks cs = []"

fun store_redis :: "store \<Rightarrow> redis" where
  "store_redis st (XREAD ms ks cs) = Some (xread st ks cs)"
| "store_redis st (XADD k p) = Some []"

fun publish :: "store \<Rightarrow> string \<Rightarrow> entry \<Rightarrow> store" where
  "publish [] k e = [(k, [e])]"
| "publish ((k', es) # st) k e =
     (if k' = k then (k', es @ [e]) # st else (k', es) # publish st k e)"

subsection \<open>Values for the examples\<close>

text \<open>A small codec: one letter for the class, then the field.\<close>

fun toy_dumps :: "signal \<Rightarrow> bytes" where
  "toy_dumps Signal = ''S''"
| "toy_dumps (ErrorSignal e) = CHR ''E'' # e"
| "toy_dumps ActorDiedSignal = ''D''"
| "toy_dumps (UserSignal u) = CHR ''U'' # u"

fun toy_loads :: "bytes \<Rightarrow> signal option" where
  "toy_loads [] = None"
| "toy_loads (c # r) =
     (if c = CHR ''S'' \<and> r = [] then Some Signal
      else if c = CHR ''E'' then Some (ErrorSignal r)
      else if c = CHR ''D'' \<and> r = [] then Some ActorDiedSignal
      else if c = CHR ''U'' then Some (UserSignal r)
      else None)"

definition toy_codec :: codec where
  "toy_codec = \<lparr>dumps = (\<lambda>sg. Some (toy_dumps sg)), loads = toy_loads\<rparr>"

text \<open>A codec whose \<open>dumps\<close> raises for every signal.\<close>

definition failing_codec :: codec where
  "failing_codec = \<lparr>dumps = (\<lambda>sg. None), loads = toy_loads\<rparr>"

text \<open>A worker that runs the task \<open>c0\<close>, is no actor and has not called \<open>receive\<close> yet.\<close>

definition fresh_worker :: worker where
  "fresh_worker = \<lparr>actor_id = None, current_task_id = ''c0'', signal_counters = None\<rparr>"

text \<open>A handle of the actor \<open>a1\<close>, which the task \<open>t1\<close> created.\<close>

definition actor_a1 :: actor_handle where
  "actor_a1 = \<lparr>handle_actor_id = ''a1'', creation_task_id = ''t1''\<rparr>"

text \<open>
  A store whose stream of the actor \<open>a1\<close> holds one entry, the termination sentinel
  that the node manager publishes when an actor dies (lines 8-11).
\<close>

definition dead_store :: store where
  "dead_store = [(binary_to_hex ''a1'', [(''1-0'', ACTOR_DIED_STR)])]"


text \<open>A store after one signal was published on the stream of the task \<open>t1\<close>.\<close>

definition one_signal_store :: store where
  "one_signal_store =
     publish [] (binary_to_hex ''t1'') (''1-0'', binary_to_hex (toy_dumps (UserSignal ''hi'')))"

subsection \<open>Notions for the statements\<close>

text \<open>
  The signal that lines 158-168 deliver for the payload of an entry: the termination
  signal for the sentinel, what the codec reads from the unhexlified payload otherwise,
  and \<open>None\<close> when one of the three decoding steps raises.
\<close>

definition signal_of :: "codec \<Rightarrow> bytes \<Rightarrow> signal option" where
  "signal_of cd p =
     (if \<not> is_ascii p then None
      else if p = ACTOR_DIED_STR then Some ActorDiedSignal
      else (case hex_to_binary p of None \<Rightarrow> None | Some b \<Rightarrow> loads cd b))"




text \<open>\<open>payload_of c\<close>: the bytes that the command \<open>c\<close> appends to a stream, if it appends.\<close>

fun payload_of :: "command \<Rightarrow> bytes option" where
  "payload_of (XADD k p) = Some p"
| "payload_of (XREAD b ks cs) = None"

text \<open>
  Where lines 156-169 leave the cursor of a stream that has sources, when every entry
  decodes: at the id of the last entry that is not the sentinel, and where it was when
  there is none.
\<close>

fun advance :: "bytes \<Rightarrow> entry list \<Rightarrow> bytes" where
  "advance c [] = c"
| "advance c (r # rs) = advance (if snd r = ACTOR_DIED_STR then c else fst r) rs"

text \<open>\<open>timeout_ok\<close>: the timeout passes the check at line 114.\<close>

definition timeout_ok :: "rat option \<Rightarrow> bool" where
  "timeout_ok timeout = (case timeout of None \<Rightarrow> True | Some t \<Rightarrow> 0 \<le> t)"

text \<open>\<open>blocks_for ms c\<close>: the command \<open>c\<close> is a blocking read with the block time \<open>ms\<close>.\<close>

fun blocks_for :: "int \<Rightarrow> command \<Rightarrow> bool" where
  "blocks_for ms (XREAD b ks cs) = (b = ms)"
| "blocks_for ms (XADD k p) = False"

section \<open>Properties\<close>

subsection \<open>Hexadecimal keys\<close>

lemma hex_val_digit: "n < 16 \<Longrightarrow> hex_val (hex_digit n) = Some n"
proof -
  assume "n < 16"
  then have "n \<in> set [0..<16]" by simp
  then show ?thesis
    by (simp add: upt_conv_Cons hex_val_def hex_digit_def) (elim disjE; simp)
qed

lemma of_char_div16: "(of_char c :: nat) div 16 < 16"
proof -
  have "(of_char c :: nat) < 256" by simp
  then show ?thesis by (simp only: less_mult_imp_div_less numeral_times_numeral[symmetric])
qed

lemma hex_roundtrip: "hex_to_binary (binary_to_hex bs) = Some bs"
  by (induction bs) (simp_all add: binary_to_hex_def hex_byte_def hex_val_digit of_char_div16)

lemma hex_digit_ascii: "\<not> digit7 (hex_digit n)"
proof -
  have "n mod 16 \<in> set [0..<16]" by simp
  then show ?thesis unfolding hex_digit_def
    by (simp add: upt_conv_Cons) (elim disjE; simp)
qed

lemma hex_digit_not_A: "hex_digit n \<noteq> CHR ''A''"
proof -
  have "n mod 16 \<in> set [0..<16]" by simp
  then show ?thesis unfolding hex_digit_def
    by (simp add: upt_conv_Cons) (elim disjE; simp)
qed

lemma hex_ascii: "is_ascii (binary_to_hex bs)"
  by (induction bs) (simp_all add: is_ascii_def binary_to_hex_def hex_byte_def hex_digit_ascii)

lemma decode_hex: "decode (binary_to_hex bs) = Inr (binary_to_hex bs)"
  by (simp add: decode_def hex_ascii)

lemma hex_not_sentinel: "binary_to_hex bs \<noteq> ACTOR_DIED_STR"
  by (cases bs) (simp_all add: binary_to_hex_def hex_byte_def ACTOR_DIED_STR_def hex_digit_not_A)

lemma hex_t1: "binary_to_hex ''t1'' = ''7431''"
  by code_simp

subsection \<open>Which exception a stage can raise\<close>

lemma get_task_id_error: "get_task_id s = Inl e \<Longrightarrow> e = UnsupportedSourceKind"
  by (cases s) auto

lemma map_sources_error: "map_sources ss d = Inl e \<Longrightarrow> e = UnsupportedSourceKind"
  by (induction ss arbitrary: d) (auto split: sum.splits dest: get_task_id_error)

lemma timeout_ok_checked:
  "timeout_ok timeout \<Longrightarrow> \<not> (case timeout of None \<Rightarrow> 10 ^ 12 | Some t \<Rightarrow> t) < (0::rat)"
  by (cases timeout) (auto simp: timeout_ok_def)

lemma read_counters_error:
  "read_counters ks sc = (sc', Inl e) \<Longrightarrow> e = HexError \<or> e = AsciiError"
  by (induction ks arbitrary: sc sc')
     (auto simp: Let_def decode_def split: option.splits sum.splits if_splits prod.splits)

lemma per_source_error:
  "per_source cd k r ss sc res = (sc', Inl e) \<Longrightarrow> e = HexError \<or> e = AsciiError \<or> e = DecodeError"
  by (induction ss arbitrary: sc res)
     (auto simp: Let_def decode_def split: option.splits sum.splits if_splits prod.splits)

lemma per_entry_error:
  "per_entry cd k ss rs sc res = (sc', Inl e) \<Longrightarrow> e = HexError \<or> e = AsciiError \<or> e = DecodeError"
  by (induction rs arbitrary: sc res)
     (auto split: sum.splits prod.splits dest: per_source_error)

lemma per_answer_error:
  "per_answer cd d as sc res = (sc', Inl e) \<Longrightarrow> e = HexError \<or> e = AsciiError \<or> e = DecodeError"
  by (induction as arbitrary: sc res)
     (auto simp: decode_def split: sum.splits prod.splits if_splits dest: per_entry_error)

lemma receive_not_invalid:
  assumes "timeout_ok timeout"
  shows "outcome (receive cd rd w sources timeout) \<noteq> Inl InvalidTimeout"
proof -
  have t: "\<not> (case timeout of None \<Rightarrow> 10 ^ 12 | Some t \<Rightarrow> t) < (0::rat)"
    using assms by (cases timeout) (auto simp: timeout_ok_def)
  show ?thesis
    using t
    by (auto simp: receive_def Let_def split: sum.splits prod.splits option.splits
        dest: map_sources_error read_counters_error per_answer_error)
qed

subsection \<open>The timeout\<close>

lemma py_int_numeral: "py_int (numeral k) = numeral k"
  by (simp add: py_int_def)

lemma receive_clamp:
  "0 \<le> t \<Longrightarrow> t < 1 / 1000 \<Longrightarrow>
   receive cd rd w sources (Some t) = receive cd rd w sources (Some (1 / 1000))"
  by (simp add: receive_def Let_def)

lemma receive_None: "receive cd rd w sources None = receive cd rd w sources (Some (10 ^ 12))"
  by (simp add: receive_def)

lemma receive_commands_ms:
  "commands (receive cd rd w sources (Some (1 / 1000))) =
     (case map_sources sources [] of
        Inl e \<Rightarrow> []
      | Inr d \<Rightarrow>
          (case snd (read_counters (map fst d)
                  (case signal_counters w of None \<Rightarrow> Map.empty | Some sc \<Rightarrow> sc)) of
             Inl e \<Rightarrow> []
           | Inr ids \<Rightarrow> [XREAD 1 (map fst d) ids]))"
  by (simp add: receive_def Let_def py_int_def split: sum.splits prod.splits option.splits)

lemma receive_commands_None:
  "commands (receive cd rd w sources None) =
     (case map_sources sources [] of
        Inl e \<Rightarrow> []
      | Inr d \<Rightarrow>
          (case snd (read_counters (map fst d)
                  (case signal_counters w of None \<Rightarrow> Map.empty | Some sc \<Rightarrow> sc)) of
             Inl e \<Rightarrow> []
           | Inr ids \<Rightarrow> [XREAD (10 ^ 15) (map fst d) ids]))"
  by (simp add: receive_def Let_def py_int_numeral split: sum.splits prod.splits option.splits)

lemma example_sources: "map_sources [TaskID ''t1''] [] = Inr [(''7431'', [TaskID ''t1''])]"
  by (simp add: hex_t1)

lemma example_cursors:
  "snd (read_counters (map fst [(''7431'', [TaskID ''t1''])])
      (case signal_counters fresh_worker of None \<Rightarrow> Map.empty | Some sc \<Rightarrow> sc)) = Inr [''0'']"
  by code_simp

text \<open>
  C6. A negative timeout makes \<open>receive\<close> raise the timeout error at once: whatever the
  sources and the store are, the worker is left as it was (no dictionary of cursors is
  created, no cursor is read or stored) and no command reaches the Redis client.
\<close>

theorem receive_negative_timeout:
  "t < 0 \<Longrightarrow> receive cd rd w sources (Some t) = (Inl InvalidTimeout, w, [])"
  by (simp add: receive_def)

theorem receive_negative_timeout_witness:
  "(- 1 :: rat) < 0 \<and>
   receive toy_codec (store_redis dead_store) fresh_worker [OtherValue ''x'', TaskID ''t1''] (Some (- 1))
     = (Inl InvalidTimeout, fresh_worker, [])"
  using receive_negative_timeout [of "- 1" toy_codec "store_redis dead_store" fresh_worker
      "[OtherValue ''x'', TaskID ''t1'']"]
  by simp

text \<open>
  C7. A timeout above zero and below one millisecond is no error: \<open>receive\<close> behaves
  exactly as with the timeout \<open>0.001\<close>, every command it issues is a read that blocks
  for 1 millisecond, and that read is issued whenever the sources resolve and the
  cursors can be read. A timeout of \<open>None\<close> is no error either: it is replaced by
  \<open>10 ^ 12\<close> seconds, and whenever the sources resolve and the cursors can be read,
  the one command issued is the read that blocks for \<open>1000 * 10 ^ 12\<close> milliseconds.
\<close>

theorem small_timeout_clamped:
  assumes "0 < t" and "t < 1 / 1000"
  shows "outcome (receive cd rd w sources (Some t)) \<noteq> Inl InvalidTimeout \<and>
   receive cd rd w sources (Some t) = receive cd rd w sources (Some (1 / 1000)) \<and>
   list_all (blocks_for 1) (commands (receive cd rd w sources (Some t))) \<and>
   (map_sources sources [] = Inr d \<longrightarrow>
    snd (read_counters (map fst d) (case signal_counters w of None \<Rightarrow> Map.empty | Some sc \<Rightarrow> sc))
      = Inr ids \<longrightarrow>
    commands (receive cd rd w sources (Some t)) = [XREAD 1 (map fst d) ids]) \<and>
   outcome (receive cd rd w sources None) \<noteq> Inl InvalidTimeout \<and>
   receive cd rd w sources None = receive cd rd w sources (Some (10 ^ 12)) \<and>
   list_all (blocks_for (1000 * 10 ^ 12)) (commands (receive cd rd w sources None)) \<and>
   (map_sources sources [] = Inr d \<longrightarrow>
    snd (read_counters (map fst d) (case signal_counters w of None \<Rightarrow> Map.empty | Some sc \<Rightarrow> sc))
      = Inr ids \<longrightarrow>
    commands (receive cd rd w sources None) = [XREAD (1000 * 10 ^ 12) (map fst d) ids])"
proof -
  have e: "receive cd rd w sources (Some t) = receive cd rd w sources (Some (1 / 1000))"
    using assms by (simp add: receive_clamp)
  have l: "list_all (blocks_for 1) (commands (receive cd rd w sources (Some (1 / 1000))))"
    unfolding receive_commands_ms by (simp split: sum.splits prod.splits)
  have n: "list_all (blocks_for (1000 * 10 ^ 12)) (commands (receive cd rd w sources None))"
    unfolding receive_commands_None by (simp split: sum.splits prod.splits)
  have v1: "outcome (receive cd rd w sources (Some t)) \<noteq> Inl InvalidTimeout"
    using assms by (intro receive_not_invalid) (simp add: timeout_ok_def)
  have v2: "outcome (receive cd rd w sources None) \<noteq> Inl InvalidTimeout"
    by (intro receive_not_invalid) (simp add: timeout_ok_def)
  have i: "map_sources sources [] = Inr d \<longrightarrow>
    snd (read_counters (map fst d) (case signal_counters w of None \<Rightarrow> Map.empty | Some sc \<Rightarrow> sc))
      = Inr ids \<longrightarrow>
    commands (receive cd rd w sources (Some (1 / 1000))) = [XREAD 1 (map fst d) ids]"
    by (simp add: receive_commands_ms)
  have j: "map_sources sources [] = Inr d \<longrightarrow>
    snd (read_counters (map fst d) (case signal_counters w of None \<Rightarrow> Map.empty | Some sc \<Rightarrow> sc))
      = Inr ids \<longrightarrow>
    commands (receive cd rd w sources None) = [XREAD (1000 * 10 ^ 12) (map fst d) ids]"
    by (simp add: receive_commands_None)
  show ?thesis
    unfolding e using l n v1 [unfolded e] v2 i j receive_None [of cd rd w sources] by blast
qed

theorem small_timeout_clamped_witness:
  "(0 :: rat) < 1 / 2000 \<and> (1 / 2000 :: rat) < 1 / 1000 \<and>
   map_sources [TaskID ''t1''] [] = Inr [(''7431'', [TaskID ''t1''])] \<and>
   snd (read_counters (map fst [(''7431'', [TaskID ''t1''])])
      (case signal_counters fresh_worker of None \<Rightarrow> Map.empty | Some sc \<Rightarrow> sc)) = Inr [''0''] \<and>
   commands (receive toy_codec (store_redis dead_store) fresh_worker [TaskID ''t1''] (Some (1 / 2000)))
      = [XREAD 1 [''7431''] [''0'']] \<and>
   commands (receive toy_codec (store_redis dead_store) fresh_worker [TaskID ''t1''] None)
      = [XREAD 1000000000000000 [''7431''] [''0'']]"
proof -
  have p: "(0 :: rat) < 1 / 2000" and q: "(1 / 2000 :: rat) < 1 / 1000"
    by simp_all
  note th = small_timeout_clamped [OF p q, of toy_codec "store_redis dead_store" fresh_worker
        "[TaskID ''t1'']" "[(''7431'', [TaskID ''t1''])]" "[''0'']"]
  from th example_sources example_cursors
  have a: "commands (receive toy_codec (store_redis dead_store) fresh_worker [TaskID ''t1''] (Some (1 / 2000)))
      = [XREAD 1 (map fst [(''7431'', [TaskID ''t1''])]) [''0'']]"
    by blast
  from th example_sources example_cursors
  have b: "commands (receive toy_codec (store_redis dead_store) fresh_worker [TaskID ''t1''] None)
      = [XREAD (1000 * 10 ^ 12) (map fst [(''7431'', [TaskID ''t1''])]) [''0'']]"
    by blast
  show ?thesis
    using a b example_sources example_cursors p q by simp
qed

text \<open>
  C10. With the timeout 0, and so in every call of \<open>forget\<close>, \<open>receive\<close> behaves exactly
  as with the timeout \<open>0.001\<close>: every command it issues is a read that blocks for
  1 millisecond, never for 0, \<open>forget\<close> issues the commands of \<open>receive\<close> with the
  timeout 0, and the read is issued whenever the sources resolve and the cursors can
  be read.
\<close>

theorem zero_timeout_clamped:
  "receive cd rd w sources (Some 0) = receive cd rd w sources (Some (1 / 1000)) \<and>
   list_all (blocks_for 1) (commands (receive cd rd w sources (Some 0))) \<and>
   commands (forget cd rd w sources) = commands (receive cd rd w sources (Some 0)) \<and>
   (map_sources sources [] = Inr d \<longrightarrow>
    snd (read_counters (map fst d) (case signal_counters w of None \<Rightarrow> Map.empty | Some sc \<Rightarrow> sc))
      = Inr ids \<longrightarrow>
    commands (forget cd rd w sources) = [XREAD 1 (map fst d) ids])"
proof -
  have c: "commands (forget cd rd w sources) = commands (receive cd rd w sources (Some 0))"
    by (simp add: forget_def split: prod.splits)
  have e: "receive cd rd w sources (Some 0) = receive cd rd w sources (Some (1 / 1000))"
    by (rule receive_clamp) simp_all
  have l: "list_all (blocks_for 1) (commands (receive cd rd w sources (Some (1 / 1000))))"
    unfolding receive_commands_ms by (simp split: sum.splits prod.splits)
  show ?thesis
    using l by (simp add: c e receive_commands_ms)
qed

theorem zero_timeout_clamped_witness:
  "map_sources [TaskID ''t1''] [] = Inr [(''7431'', [TaskID ''t1''])] \<and>
   snd (read_counters (map fst [(''7431'', [TaskID ''t1''])])
      (case signal_counters fresh_worker of None \<Rightarrow> Map.empty | Some sc \<Rightarrow> sc)) = Inr [''0''] \<and>
   commands (forget toy_codec (store_redis dead_store) fresh_worker [TaskID ''t1''])
      = [XREAD 1 [''7431''] [''0'']]"
proof -
  from zero_timeout_clamped [of toy_codec "store_redis dead_store" fresh_worker
        "[TaskID ''t1'']" "[(''7431'', [TaskID ''t1''])]" "[''0'']"]
    example_sources example_cursors
  have "commands (forget toy_codec (store_redis dead_store) fresh_worker [TaskID ''t1''])
      = [XREAD 1 (map fst [(''7431'', [TaskID ''t1''])]) [''0'']]"
    by blast
  then show ?thesis
    using example_sources example_cursors by simp
qed

subsection \<open>One stream\<close>

lemma map_sources_same:
  "list_all (\<lambda>s. get_task_id s = Inr k) ss \<Longrightarrow>
   map_sources ss [(binary_to_hex k, ss0)] = Inr [(binary_to_hex k, ss0 @ ss)]"
  by (induction ss arbitrary: ss0) simp_all

lemma map_sources_one_stream:
  "sources \<noteq> [] \<Longrightarrow> list_all (\<lambda>s. get_task_id s = Inr k) sources \<Longrightarrow>
   map_sources sources [] = Inr [(binary_to_hex k, sources)]"
  by (cases sources) (simp_all add: map_sources_same)

lemma read_counters_one:
  "is_ascii (case sc k of None \<Rightarrow> ''0'' | Some c \<Rightarrow> c) \<Longrightarrow>
   read_counters [binary_to_hex k] sc =
     (sc(k \<mapsto> (case sc k of None \<Rightarrow> ''0'' | Some c \<Rightarrow> c)),
      Inr [case sc k of None \<Rightarrow> ''0'' | Some c \<Rightarrow> c])"
  by (simp add: hex_roundtrip decode_def Let_def)

lemma per_answer_one:
  "per_answer cd [(binary_to_hex k, ss)] [(binary_to_hex k, es)] sc res =
   per_entry cd (binary_to_hex k) ss es sc res"
  by (simp add: decode_hex split: prod.splits sum.splits)

lemma per_source_signal:
  "signal_of cd (snd r) = Some sg \<Longrightarrow>
   snd (per_source cd (binary_to_hex k) r ss sc res) = Inr (res @ map (\<lambda>s. (s, sg)) ss)"
  by (induction ss arbitrary: sc res)
     (auto simp: signal_of_def decode_def hex_roundtrip Let_def split: if_splits option.splits)

lemma per_entry_signals:
  "map (\<lambda>r. signal_of cd (snd r)) es = map Some sgs \<Longrightarrow>
   snd (per_entry cd (binary_to_hex k) ss es sc res) =
     Inr (res @ concat (map (\<lambda>sg. map (\<lambda>s. (s, sg)) ss) sgs))"
proof (induction es arbitrary: sgs sc res)
  case Nil
  then show ?case by simp
next
  case (Cons r es)
  from Cons.prems obtain sg sgs' where s: "sgs = sg # sgs'" "signal_of cd (snd r) = Some sg"
    "map (\<lambda>r. signal_of cd (snd r)) es = map Some sgs'"
    by (cases sgs) auto
  obtain sc' where p: "per_source cd (binary_to_hex k) r ss sc res = (sc', Inr (res @ map (\<lambda>s. (s, sg)) ss))"
    using per_source_signal [OF s(2), of k ss sc res] by (metis prod.collapse)
  show ?case
    using Cons.IH [OF s(3), of sc' "res @ map (\<lambda>s. (s, sg)) ss"] by (simp add: p s(1))
qed

lemma receive_stages:
  assumes t: "timeout_ok timeout"
    and m: "map_sources sources [] = Inr d"
    and r: "read_counters (map fst d)
              (case signal_counters w of None \<Rightarrow> Map.empty | Some sc \<Rightarrow> sc) = (sc1, Inr ids)"
    and rd: "\<And>ms. rd (XREAD ms (map fst d) ids) = Some answers"
    and a: "answers \<noteq> []"
  shows "outcome (receive cd rd w sources timeout) = snd (per_answer cd d answers sc1 [])"
    and "worker_after (receive cd rd w sources timeout) =
           w\<lparr>signal_counters := Some (fst (per_answer cd d answers sc1 []))\<rparr>"
  using timeout_ok_checked [OF t] a
  by (simp_all add: receive_def Let_def m r rd split: prod.splits)

lemma receive_one_stream:
  assumes src: "sources \<noteq> []" "list_all (\<lambda>s. get_task_id s = Inr k) sources"
    and t: "timeout_ok timeout"
    and c: "is_ascii (cursor w k)"
    and rd: "\<And>ms. rd (XREAD ms [binary_to_hex k] [cursor w k]) = Some [(binary_to_hex k, es)]"
  shows "outcome (receive cd rd w sources timeout) =
     snd (per_entry cd (binary_to_hex k) sources es
       ((case signal_counters w of None \<Rightarrow> Map.empty | Some sc \<Rightarrow> sc)(k \<mapsto> cursor w k)) [])"
    and "worker_after (receive cd rd w sources timeout) =
     w\<lparr>signal_counters := Some (fst (per_entry cd (binary_to_hex k) sources es
       ((case signal_counters w of None \<Rightarrow> Map.empty | Some sc \<Rightarrow> sc)(k \<mapsto> cursor w k)) []))\<rparr>"
proof -
  let ?sc0 = "case signal_counters w of None \<Rightarrow> Map.empty | Some sc \<Rightarrow> sc"
  have v: "(case ?sc0 k of None \<Rightarrow> ''0'' | Some c \<Rightarrow> c) = cursor w k"
    by (simp add: cursor_def split: option.splits)
  have r: "read_counters (map fst [(binary_to_hex k, sources)]) ?sc0
             = (?sc0(k \<mapsto> cursor w k), Inr [cursor w k])"
    using read_counters_one [of ?sc0 k] c unfolding v by simp
  have q: "\<And>ms. rd (XREAD ms (map fst [(binary_to_hex k, sources)]) [cursor w k])
             = Some [(binary_to_hex k, es)]"
    using rd by simp
  have a: "[(binary_to_hex k, es)] \<noteq> []"
    by simp
  note st = receive_stages [where rd = rd and answers = "[(binary_to_hex k, es)]" and cd = cd,
      OF t map_sources_one_stream [OF src] r q a]
  show "outcome (receive cd rd w sources timeout) =
     snd (per_entry cd (binary_to_hex k) sources es (?sc0(k \<mapsto> cursor w k)) [])"
    using st(1) by (simp only: per_answer_one)
  show "worker_after (receive cd rd w sources timeout) =
     w\<lparr>signal_counters := Some (fst (per_entry cd (binary_to_hex k) sources es
       (?sc0(k \<mapsto> cursor w k)) []))\<rparr>"
    using st(2) by (simp only: per_answer_one)
qed

lemma per_source_cursor:
  "signal_of cd (snd r) = Some sg \<Longrightarrow>
   fst (per_source cd (binary_to_hex k) r ss sc res) =
     (if snd r = ACTOR_DIED_STR \<or> ss = [] then sc else sc(k \<mapsto> fst r))"
  by (induction ss arbitrary: sc res)
     (auto simp: signal_of_def decode_def hex_roundtrip Let_def split: if_splits option.splits)

lemma per_entry_cursor:
  "map (\<lambda>r. signal_of cd (snd r)) es = map Some sgs \<Longrightarrow> ss \<noteq> [] \<Longrightarrow> sc k = Some c \<Longrightarrow>
   fst (per_entry cd (binary_to_hex k) ss es sc res) = sc(k \<mapsto> advance c es)"
proof (induction es arbitrary: sgs sc res c)
  case Nil
  then show ?case by (simp add: fun_upd_idem)
next
  case (Cons r es)
  from Cons.prems(1) obtain sg sgs' where s: "sgs = sg # sgs'" "signal_of cd (snd r) = Some sg"
    "map (\<lambda>r. signal_of cd (snd r)) es = map Some sgs'"
    by (cases sgs) auto
  let ?c = "if snd r = ACTOR_DIED_STR then c else fst r"
  let ?sc = "sc(k \<mapsto> ?c)"
  have f: "fst (per_source cd (binary_to_hex k) r ss sc res) = ?sc"
    using per_source_cursor [OF s(2), of k ss sc res] Cons.prems(2,3) by (simp add: fun_upd_idem)
  have g: "snd (per_source cd (binary_to_hex k) r ss sc res) = Inr (res @ map (\<lambda>s. (s, sg)) ss)"
    by (rule per_source_signal [OF s(2)])
  have p: "per_source cd (binary_to_hex k) r ss sc res = (?sc, Inr (res @ map (\<lambda>s. (s, sg)) ss))"
    using f g by (metis prod.collapse)
  have "?sc k = Some ?c" by simp
  then have ih: "fst (per_entry cd (binary_to_hex k) ss es ?sc (res @ map (\<lambda>s. (s, sg)) ss))
      = ?sc(k \<mapsto> advance ?c es)"
    by (rule Cons.IH [where sc = ?sc and c = ?c, OF s(3) Cons.prems(2)])
  have "fst (per_entry cd (binary_to_hex k) ss (r # es) sc res)
      = fst (per_entry cd (binary_to_hex k) ss es ?sc (res @ map (\<lambda>s. (s, sg)) ss))"
    by (simp only: per_entry.simps p prod.case sum.case)
  also note ih
  also have "?sc(k \<mapsto> advance ?c es) = sc(k \<mapsto> advance c (r # es))"
    by (simp only: fun_upd_upd advance.simps)
  finally show ?case .
qed

lemma receive_cursor:
  assumes src: "sources \<noteq> []" "list_all (\<lambda>s. get_task_id s = Inr k) sources"
    and t: "timeout_ok timeout"
    and c: "is_ascii (cursor w k)"
    and rd: "\<And>ms. rd (XREAD ms [binary_to_hex k] [cursor w k]) = Some [(binary_to_hex k, es)]"
    and d: "map (\<lambda>r. signal_of cd (snd r)) es = map Some sgs"
  shows "cursor (worker_after (receive cd rd w sources timeout)) k = advance (cursor w k) es"
proof -
  let ?sc0 = "case signal_counters w of None \<Rightarrow> Map.empty | Some sc \<Rightarrow> sc"
  have "(?sc0(k \<mapsto> cursor w k)) k = Some (cursor w k)" by simp
  from per_entry_cursor [where sc = "?sc0(k \<mapsto> cursor w k)" and res = "[]", OF d src(1) this]
  show ?thesis
    by (simp add: receive_one_stream(2) [where rd = rd and cd = cd, OF src t c rd] cursor_def)
qed



lemma map_sources_unsupported:
  "OtherValue v \<in> set ss \<Longrightarrow> map_sources ss d = Inl UnsupportedSourceKind"
proof (induction ss arbitrary: d)
  case Nil
  then show ?case by simp
next
  case (Cons s ss)
  show ?case
  proof (cases "get_task_id s")
    case (Inl e)
    then show ?thesis using get_task_id_error [OF Inl] by simp
  next
    case (Inr t)
    then have "s \<noteq> OtherValue v" by auto
    with Cons.prems have "OtherValue v \<in> set ss" by simp
    then show ?thesis using Inr Cons.IH by simp
  qed
qed

subsection \<open>Every answer and every entry\<close>













lemma example_dead_read:
  "store_redis dead_store (XREAD ms [binary_to_hex ''a1''] [cursor fresh_worker ''a1''])
     = Some [(binary_to_hex ''a1'', [(''1-0'', ACTOR_DIED_STR)])]"
  by (simp add: dead_store_def cursor_def fresh_worker_def newer_def)

lemma example_signal_read:
  "store_redis one_signal_store (XREAD ms [binary_to_hex ''t1''] [cursor fresh_worker ''t1''])
     = Some [(binary_to_hex ''t1'', [(''1-0'', ''556869'')])]"
proof -
  have "binary_to_hex (toy_dumps (UserSignal ''hi'')) = ''556869''"
    by code_simp
  then show ?thesis
    by (simp add: one_signal_store_def cursor_def fresh_worker_def newer_def)
qed


lemma example_signal_of: "signal_of toy_codec ''556869'' = Some (UserSignal ''hi'')"
  by code_simp

lemma send_encode_error: "send failing_codec rd w sg = (Inl EncodeError, [])"
  by (simp add: send_def failing_codec_def)

text \<open>
  C3 (as the code has it). \<open>send\<close> treats every signal alike, the termination signal
  \<open>ActorDiedSignal\<close> included: when the codec encodes the signal, the one command
  issued appends, to the stream of the calling actor or task, the hexadecimal form of
  the encoding, and when the codec raises, no command is issued. A hexadecimal string is
  never the reserved sentinel, so no command of \<open>send\<close> appends the sentinel; and no
  command of \<open>receive\<close> or \<open>forget\<close> appends anything. So no call of this module
  writes the sentinel to a stream.
\<close>

theorem send_encodes_every_signal:
  "snd (send cd rd w sg) =
     (case dumps cd sg of
        None \<Rightarrow> []
      | Some b \<Rightarrow> [XADD (source_key w) (binary_to_hex b)]) \<and>
   list_all (\<lambda>c. payload_of c \<noteq> Some ACTOR_DIED_STR) (snd (send cd rd w sg)) \<and>
   list_all (\<lambda>c. payload_of c = None) (commands (receive cd rd w sources timeout)) \<and>
   list_all (\<lambda>c. payload_of c = None) (commands (forget cd rd w sources))"
proof -
  have r: "list_all (\<lambda>c. payload_of c = None) (commands (receive cd rd w sources t))" for t
    by (simp add: receive_def Let_def split: sum.splits prod.splits option.splits)
  have f: "commands (forget cd rd w sources) = commands (receive cd rd w sources (Some 0))"
    by (simp add: forget_def split: prod.splits)
  show ?thesis
    using r [of timeout] r [of "Some 0"]
    by (simp add: f send_def Let_def hex_not_sentinel split: option.splits)
qed

text \<open>
  C3 as stated fails: for \<open>ActorDiedSignal\<close> the worker \<open>c0\<close> appends \<open>44\<close>, the
  hexadecimal form of the codec's output \<open>D\<close>, and not the sentinel.
\<close>

theorem send_termination_counterexample:
  "snd (send toy_codec (store_redis []) fresh_worker ActorDiedSignal) = [XADD ''6330'' ''44''] \<and>
   snd (send toy_codec (store_redis []) fresh_worker ActorDiedSignal)
     \<noteq> [XADD (source_key fresh_worker) ACTOR_DIED_STR]"
  by code_simp

text \<open>
  C4 (as the code has it). An actor handle resolves to its own actor id, the field
  \<open>_actor_id\<close>: the key that \<open>receive\<close> reads for the handle is the key that \<open>send\<close>
  writes to when it runs inside that actor. As a function of the handle alone, the
  resolution is deterministic.
\<close>

theorem actor_handle_resolves_to_actor_id:
  "get_task_id (ActorHandle h) = Inr (handle_actor_id h) \<and>
   map_sources [ActorHandle h] [] =
     Inr [(source_key (w\<lparr>actor_id := Some (handle_actor_id h)\<rparr>), [ActorHandle h])]"
  by (simp add: source_key_def)

text \<open>
  C4 as stated fails: the handle of the actor \<open>a1\<close>, created by the task \<open>t1\<close>,
  resolves to \<open>a1\<close> and not to \<open>t1\<close>.
\<close>

theorem actor_handle_counterexample:
  "get_task_id (ActorHandle actor_a1) = Inr ''a1'' \<and>
   get_task_id (ActorHandle actor_a1) \<noteq> Inr (creation_task_id actor_a1)"
  by (simp add: actor_a1_def)

text \<open>
  C5. A source that is no actor handle, no task id and no object id makes
  \<open>_get_task_id\<close> fail with \<open>UnsupportedSourceKind\<close>; a \<open>receive\<close> whose sources
  hold such a value (and whose timeout is valid) ends with that error, returns no pairs,
  issues no command, and leaves every cursor of the worker as it was. \<open>send\<close> takes no
  source and resolves none.
\<close>

theorem unsupported_source_aborts:
  "get_task_id (OtherValue v) = Inl UnsupportedSourceKind \<and>
   (OtherValue v \<in> set sources \<longrightarrow> timeout_ok timeout \<longrightarrow>
      receive cd rd w sources timeout =
        (Inl UnsupportedSourceKind,
         w\<lparr>signal_counters :=
             Some (case signal_counters w of None \<Rightarrow> Map.empty | Some sc \<Rightarrow> sc)\<rparr>,
         []) \<and>
      cursor (worker_after (receive cd rd w sources timeout)) k = cursor w k)"
proof -
  have "receive cd rd w sources timeout =
        (Inl UnsupportedSourceKind,
         w\<lparr>signal_counters :=
             Some (case signal_counters w of None \<Rightarrow> Map.empty | Some sc \<Rightarrow> sc)\<rparr>,
         [])"
    if "OtherValue v \<in> set sources" and "timeout_ok timeout"
    using timeout_ok_checked [OF that(2)] map_sources_unsupported [OF that(1), of "[]"]
    by (simp add: receive_def Let_def)
  then show ?thesis
    by (simp add: cursor_def split: option.splits)
qed

theorem unsupported_source_aborts_witness:
  "OtherValue ''x'' \<in> set [TaskID ''t1'', OtherValue ''x''] \<and> timeout_ok None \<and>
   receive toy_codec (store_redis one_signal_store) fresh_worker [TaskID ''t1'', OtherValue ''x''] None =
     (Inl UnsupportedSourceKind, fresh_worker\<lparr>signal_counters := Some Map.empty\<rparr>, [])"
proof -
  have a: "OtherValue ''x'' \<in> set [TaskID ''t1'', OtherValue ''x'']" by simp
  have b: "timeout_ok None" by (simp add: timeout_ok_def)
  from unsupported_source_aborts [of "''x''" "[TaskID ''t1'', OtherValue ''x'']" None toy_codec
      "store_redis one_signal_store" fresh_worker "''t1''"] a b
  have "receive toy_codec (store_redis one_signal_store) fresh_worker [TaskID ''t1'', OtherValue ''x''] None =
        (Inl UnsupportedSourceKind,
         fresh_worker\<lparr>signal_counters :=
             Some (case signal_counters fresh_worker of None \<Rightarrow> Map.empty | Some sc \<Rightarrow> sc)\<rparr>,
         [])"
    by blast
  then show ?thesis using a b by (simp add: fresh_worker_def)
qed




text \<open>
  C8. Two distinct sources \<open>s1\<close> and \<open>s2\<close> of one stream: when the read returns the
  entries \<open>es\<close> of that stream and they decode to the signals \<open>sgs\<close>, \<open>receive\<close>
  returns, for every signal in the order of the entries, the pair for \<open>s1\<close> and the pair
  for \<open>s2\<close>; each source gets exactly \<open>sgs\<close>, in order. After one publish these are
  exactly the two pairs \<open>(s1, signal)\<close> and \<open>(s2, signal)\<close>.
\<close>

theorem fan_out:
  assumes "get_task_id s1 = Inr k" and "get_task_id s2 = Inr k" and "s1 \<noteq> s2"
    and "timeout_ok timeout" and "is_ascii (cursor w k)"
    and "\<And>ms. rd (XREAD ms [binary_to_hex k] [cursor w k]) = Some [(binary_to_hex k, es)]"
    and "map (\<lambda>r. signal_of cd (snd r)) es = map Some sgs"
  shows "\<exists>res. outcome (receive cd rd w [s1, s2] timeout) = Inr res \<and>
     res = concat (map (\<lambda>sg. [(s1, sg), (s2, sg)]) sgs) \<and>
     map snd (filter (\<lambda>x. fst x = s1) res) = sgs \<and>
     map snd (filter (\<lambda>x. fst x = s2) res) = sgs \<and>
     length res = 2 * length es"
proof -
  let ?res = "concat (map (\<lambda>sg. [(s1, sg), (s2, sg)]) sgs)"
  have src: "[s1, s2] \<noteq> []" "list_all (\<lambda>s. get_task_id s = Inr k) [s1, s2]"
    using assms(1,2) by simp_all
  have "outcome (receive cd rd w [s1, s2] timeout) = Inr ?res"
    using receive_one_stream(1) [where rd = rd and cd = cd, OF src assms(4,5,6)]
      per_entry_signals [OF assms(7), of k "[s1, s2]"]
    by simp
  moreover have "map snd (filter (\<lambda>x. fst x = s1) ?res) = sgs"
    using assms(3) by (induction sgs) auto
  moreover have "map snd (filter (\<lambda>x. fst x = s2) ?res) = sgs"
    using assms(3) by (induction sgs) auto
  moreover have "length ?res = 2 * length sgs"
    by (induction sgs) auto
  moreover have "length es = length sgs"
    using assms(7) by (metis length_map)
  ultimately show ?thesis by simp
qed

theorem fan_out_witness:
  "get_task_id (ObjectID ''t1'' 0) = Inr ''t1'' \<and> get_task_id (ObjectID ''t1'' 1) = Inr ''t1'' \<and>
   ObjectID ''t1'' 0 \<noteq> ObjectID ''t1'' 1 \<and> timeout_ok None \<and> is_ascii (cursor fresh_worker ''t1'') \<and>
   (\<forall>ms. store_redis one_signal_store (XREAD ms [binary_to_hex ''t1''] [cursor fresh_worker ''t1''])
       = Some [(binary_to_hex ''t1'', [(''1-0'', ''556869'')])]) \<and>
   map (\<lambda>r. signal_of toy_codec (snd r)) [(''1-0'', ''556869'')] = map Some [UserSignal ''hi''] \<and>
   outcome (receive toy_codec (store_redis one_signal_store) fresh_worker
              [ObjectID ''t1'' 0, ObjectID ''t1'' 1] None)
     = Inr [(ObjectID ''t1'' 0, UserSignal ''hi''), (ObjectID ''t1'' 1, UserSignal ''hi'')]"
proof -
  have a: "get_task_id (ObjectID ''t1'' 0) = Inr ''t1''"
    and b: "get_task_id (ObjectID ''t1'' 1) = Inr ''t1''"
    and c: "ObjectID ''t1'' 0 \<noteq> ObjectID ''t1'' 1"
    and d: "timeout_ok None"
    and e: "is_ascii (cursor fresh_worker ''t1'')"
    and f: "map (\<lambda>r. signal_of toy_codec (snd r)) [(''1-0'', ''556869'')] = map Some [UserSignal ''hi'']"
    by (simp_all add: timeout_ok_def cursor_def fresh_worker_def is_ascii_def example_signal_of)
  from fan_out [where rd = "store_redis one_signal_store" and cd = toy_codec,
      OF a b c d e example_signal_read f]
  have "outcome (receive toy_codec (store_redis one_signal_store) fresh_worker
              [ObjectID ''t1'' 0, ObjectID ''t1'' 1] None)
     = Inr [(ObjectID ''t1'' 0, UserSignal ''hi''), (ObjectID ''t1'' 1, UserSignal ''hi'')]"
    by simp
  then show ?thesis
    using a b c d e f example_signal_read by simp
qed

subsection \<open>The sentinel and the cursor\<close>

lemma reset_cursor: "cursor (reset w) k = ''0''"
  by (simp add: reset_def cursor_def split: option.splits)

text \<open>
  C1, at the input where the code departs from it. The stream of the actor \<open>a1\<close> holds
  one entry, the sentinel. The first \<open>receive\<close> delivers it and leaves the cursor of
  the stream at \<open>0\<close> instead of the entry's id \<open>1-0\<close> (line 163 stores the id in the
  branch of the other payloads only), so the second \<open>receive\<close> delivers the same entry
  again.
\<close>

theorem sentinel_entry_delivered_again:
  "outcome (receive toy_codec (store_redis dead_store) fresh_worker [ActorHandle actor_a1] (Some 0))
      = Inr [(ActorHandle actor_a1, ActorDiedSignal)] \<and>
   cursor (worker_after
       (receive toy_codec (store_redis dead_store) fresh_worker [ActorHandle actor_a1] (Some 0))) ''a1''
      = ''0'' \<and>
   outcome (receive toy_codec (store_redis dead_store)
       (worker_after
          (receive toy_codec (store_redis dead_store) fresh_worker [ActorHandle actor_a1] (Some 0)))
       [ActorHandle actor_a1] (Some 0))
      = Inr [(ActorHandle actor_a1, ActorDiedSignal)]"
  by code_simp

text \<open>
  C2, at the input where the code departs from it. On the same store, \<open>forget\<close>
  succeeds and the \<open>receive\<close> that follows it, with no publish in between, still
  returns the termination signal.
\<close>

theorem forget_leaves_sentinel:
  "outcome (forget toy_codec (store_redis dead_store) fresh_worker [ActorHandle actor_a1]) = Inr () \<and>
   outcome (receive toy_codec (store_redis dead_store)
       (worker_after (forget toy_codec (store_redis dead_store) fresh_worker [ActorHandle actor_a1]))
       [ActorHandle actor_a1] (Some 0))
      = Inr [(ActorHandle actor_a1, ActorDiedSignal)]"
  by code_simp

end
